theory Spec2Isabelle
  imports Complex_Main "HOL-Library.Product_Lexorder" "HOL-Library.Sublist"
begin

section \<open>Strings\<close>

text \<open>
  Python strings are modelled as \<^typ>\<open>string\<close> and read as ASCII text: a character
  above 127 is neither a letter, nor a word character, nor white space.
\<close>

definition lower_char :: "char \<Rightarrow> char" where
  "lower_char c =
     (if 65 \<le> (of_char c :: nat) \<and> (of_char c :: nat) \<le> 90
      then char_of ((of_char c :: nat) + 32) else c)"

text \<open>\<^verbatim>\<open>str.lower()\<close>\<close>

definition lower :: "string \<Rightarrow> string" where
  "lower s = map lower_char s"

text \<open>\<^verbatim>\<open>s.startswith(p)\<close>, used to define \<^verbatim>\<open>p in s\<close>.\<close>

fun starts_with :: "string \<Rightarrow> string \<Rightarrow> bool" where
  "starts_with s [] = True"
| "starts_with [] (p # ps) = False"
| "starts_with (c # cs) (p # ps) = (c = p \<and> starts_with cs ps)"

text \<open>\<^verbatim>\<open>needle in s\<close> on strings: \<open>needle\<close> occurs as a contiguous substring.\<close>

fun contains :: "string \<Rightarrow> string \<Rightarrow> bool" where
  "contains [] needle = (needle = [])"
| "contains (c # cs) needle = (starts_with (c # cs) needle \<or> contains cs needle)"

text \<open>
  White space as \<^verbatim>\<open>str.strip()\<close> and the pattern \<^verbatim>\<open>\s\<close> see it: tab, line
  feed, vertical tab, form feed, carriage return, the four separators 28 to 31, and
  the blank.
\<close>

definition is_space :: "char \<Rightarrow> bool" where
  "is_space c = ((of_char c :: nat) \<in> {9, 10, 11, 12, 13, 28, 29, 30, 31, 32})"

text \<open>\<^verbatim>\<open>str.strip()\<close>\<close>

definition strip :: "string \<Rightarrow> string" where
  "strip s = rev (dropWhile is_space (rev (dropWhile is_space s)))"

text \<open>
  \<^verbatim>\<open>re.sub(r'\s+', ' ', s)\<close>: every maximal run of white space becomes one blank.
  The flag says whether the previous character was white space.
\<close>

fun sub_spaces_from :: "bool \<Rightarrow> string \<Rightarrow> string" where
  "sub_spaces_from in_run [] = []"
| "sub_spaces_from in_run (c # cs) =
     (if is_space c
      then (if in_run then sub_spaces_from True cs else CHR '' '' # sub_spaces_from True cs)
      else c # sub_spaces_from False cs)"

definition sub_spaces :: "string \<Rightarrow> string" where
  "sub_spaces s = sub_spaces_from False s"

text \<open>\<^verbatim>\<open>s.replace(c, "")\<close> for a one-character \<open>c\<close>.\<close>

definition remove_char :: "char \<Rightarrow> string \<Rightarrow> string" where
  "remove_char c s = filter (\<lambda>d. d \<noteq> c) s"

text \<open>
  A word character of the pattern \<^verbatim>\<open>\w\<close>: a letter, a digit or the underscore.
\<close>

definition is_word :: "char \<Rightarrow> bool" where
  "is_word c =
     (let n = (of_char c :: nat)
      in (48 \<le> n \<and> n \<le> 57) \<or> (65 \<le> n \<and> n \<le> 90) \<or> n = 95 \<or> (97 \<le> n \<and> n \<le> 122))"

text \<open>
  \<^verbatim>\<open>re.findall(r'\b\w+\b', s)\<close>: the maximal runs of word characters, in order.
  The first argument is the run being read.
\<close>

fun findall_words_from :: "string \<Rightarrow> string \<Rightarrow> string list" where
  "findall_words_from run [] = (if run = [] then [] else [run])"
| "findall_words_from run (c # cs) =
     (if is_word c then findall_words_from (run @ [c]) cs
      else (if run = [] then [] else [run]) @ findall_words_from [] cs)"

definition findall_words :: "string \<Rightarrow> string list" where
  "findall_words s = findall_words_from [] s"

section \<open>Numbers\<close>

text \<open>
  A Python float is modelled by its exact value: a rational, or one of the two
  infinities. Rounding and NaN are not modelled.
\<close>

datatype pyfloat = NInf | Fin rat | PInf

instantiation pyfloat :: linorder
begin

fun less_eq_pyfloat :: "pyfloat \<Rightarrow> pyfloat \<Rightarrow> bool" where
  "less_eq_pyfloat NInf y = True"
| "less_eq_pyfloat (Fin a) NInf = False"
| "less_eq_pyfloat (Fin a) (Fin b) = (a \<le> b)"
| "less_eq_pyfloat (Fin a) PInf = True"
| "less_eq_pyfloat PInf y = (y = PInf)"

definition less_pyfloat :: "pyfloat \<Rightarrow> pyfloat \<Rightarrow> bool" where
  "less_pyfloat x y = (x \<le> y \<and> \<not> y \<le> x)"

instance
proof
  fix x y z :: pyfloat
  show "(x < y) = (x \<le> y \<and> \<not> y \<le> x)" by (simp add: less_pyfloat_def)
  show "x \<le> x" by (cases x) simp_all
  show "x \<le> y \<Longrightarrow> y \<le> z \<Longrightarrow> x \<le> z"
    by (cases x; cases y; cases z) simp_all
  show "x \<le> y \<Longrightarrow> y \<le> x \<Longrightarrow> x = y"
    by (cases x; cases y) simp_all
  show "x \<le> y \<or> y \<le> x"
    by (cases x; cases y) auto
qed

end

section \<open>Offers\<close>

text \<open>
  A value of the provider's JSON answer. The fields whose dynamic type the code
  inspects (\<^verbatim>\<open>price\<close>, \<^verbatim>\<open>rating\<close>, \<^verbatim>\<open>reviews\<close>) carry such a value; arrays
  and objects are left out.
\<close>

datatype jval = JNull | JBool bool | JInt int | JFloat rat | JStr string

text \<open>
  An offer is a Python dictionary. Each key the code reads is a field, \<open>None\<close> when
  the key is absent. \<^verbatim>\<open>numeric_price\<close> and \<^verbatim>\<open>relevance_score\<close> are the two keys
  the sorter writes.
\<close>

record offer =
  offer_title :: "string option"
  offer_price :: "jval option"
  offer_product_id :: "string option"
  offer_id :: "string option"
  offer_link :: "string option"
  offer_source :: "string option"
  offer_rating :: "jval option"
  offer_reviews :: "jval option"
  offer_second_hand_condition :: "jval option"
  offer_numeric_price :: "pyfloat option"
  offer_relevance_score :: "rat option"

text \<open>The empty dictionary, from which the examples below are built.\<close>

definition blank_offer :: offer where
  "blank_offer = \<lparr>offer_title = None, offer_price = None, offer_product_id = None,
     offer_id = None, offer_link = None, offer_source = None, offer_rating = None,
     offer_reviews = None, offer_second_hand_condition = None,
     offer_numeric_price = None, offer_relevance_score = None\<rparr>"

text \<open>\<^verbatim>\<open>d.get(key, default)\<close> on a string field.\<close>

definition get_str :: "string option \<Rightarrow> string \<Rightarrow> string" where
  "get_str field dflt = (case field of None \<Rightarrow> dflt | Some v \<Rightarrow> v)"

text \<open>\<^verbatim>\<open>a or b\<close> where \<open>a\<close> is \<^verbatim>\<open>d.get(key)\<close>: absent and empty are both falsy.\<close>

definition or_else :: "string option \<Rightarrow> string \<Rightarrow> string" where
  "or_else field other = (case field of None \<Rightarrow> other | Some v \<Rightarrow> if v = [] then other else v)"

text \<open>Truth value of a JSON value, as \<^verbatim>\<open>not v\<close> tests it.\<close>

fun truthy :: "jval \<Rightarrow> bool" where
  "truthy JNull = False"
| "truthy (JBool b) = b"
| "truthy (JInt i) = (i \<noteq> 0)"
| "truthy (JFloat x) = (x \<noteq> 0)"
| "truthy (JStr s) = (s \<noteq> [])"

text \<open>
  What the code takes from outside the repository: the builtin \<^verbatim>\<open>float\<close> on
  strings (\<open>None\<close> for \<^verbatim>\<open>ValueError\<close>), the host part that \<^verbatim>\<open>urlparse\<close> finds in a
  link (\<open>None\<close> when it raises), and the table \<^verbatim>\<open>SITE_DOMAINS\<close> of the module
  \<^verbatim>\<open>constants\<close>. The functions below take them as a parameter.
\<close>

record env =
  float_of :: "string \<Rightarrow> pyfloat option"
  netloc_of :: "string \<Rightarrow> string option"
  SITE_DOMAINS :: "string \<rightharpoonup> string list"

definition get_site_domains :: "env \<Rightarrow> string \<Rightarrow> string list" where
  "get_site_domains e site_preference =
     (case SITE_DOMAINS e (lower site_preference) of None \<Rightarrow> [] | Some ds \<Rightarrow> ds)"

section \<open>Deduplicator\<close>

text \<open>
  \<^verbatim>\<open>result.get("product_id") or result.get("id") or result.get("link", "")\<close>
\<close>

definition ident :: "offer \<Rightarrow> string" where
  "ident result =
     or_else (offer_product_id result) (or_else (offer_id result) (get_str (offer_link result) []))"

definition normalized_title :: "offer \<Rightarrow> string" where
  "normalized_title result =
     (let title = strip (lower (get_str (offer_title result) []))
      in strip (sub_spaces title))"

text \<open>The loop of \<^verbatim>\<open>remove_duplicates\<close>, with its three variables as arguments.\<close>

fun dedup_loop :: "string set \<Rightarrow> string set \<Rightarrow> offer list \<Rightarrow> offer list \<Rightarrow> offer list" where
  "dedup_loop seen_ids seen_titles unique_results [] = unique_results"
| "dedup_loop seen_ids seen_titles unique_results (result # results) =
     (if ident result \<notin> seen_ids \<and> normalized_title result \<notin> seen_titles
      then dedup_loop (insert (ident result) seen_ids)
             (insert (normalized_title result) seen_titles) (unique_results @ [result]) results
      else dedup_loop seen_ids seen_titles unique_results results)"

definition remove_duplicates :: "offer list \<Rightarrow> offer list" where
  "remove_duplicates results = dedup_loop {} {} [] results"

section \<open>Price bands\<close>

text \<open>
  The dictionary \<^verbatim>\<open>price_ranges\<close> of \<^verbatim>\<open>is_price_reasonable\<close>, in insertion order,
  which is the order in which Python iterates over it.
\<close>

definition price_ranges :: "(string \<times> rat \<times> rat) list" where
  "price_ranges =
     [(''macbook'', 500, 5000), (''iphone'', 200, 2000), (''ipad'', 200, 2000),
      (''laptop'', 300, 5000), (''tv'', 150, 5000), (''tablet'', 100, 2000)]"

text \<open>The loop over the table: the first category found in the item decides.\<close>

fun band_loop :: "(string \<times> rat \<times> rat) list \<Rightarrow> pyfloat \<Rightarrow> string \<Rightarrow> bool" where
  "band_loop [] price item_lower = (Fin 1 \<le> price \<and> price \<le> Fin 10000)"
| "band_loop ((category, min_price, max_price) # rest) price item_lower =
     (if contains item_lower category
      then Fin min_price \<le> price \<and> price \<le> Fin max_price
      else band_loop rest price item_lower)"

definition is_price_reasonable :: "pyfloat \<Rightarrow> string \<Rightarrow> bool" where
  "is_price_reasonable price item = band_loop price_ranges price (lower item)"

section \<open>Filter chain\<close>

definition accessory_keywords :: "string list" where
  "accessory_keywords =
     [''case'', ''cover'', ''skin'', ''screen protector'', ''charger'', ''cable'', ''adapter'',
      ''stand'', ''mount'', ''sleeve'', ''bag'', ''keyboard'', ''mouse'', ''dock'', ''hub'',
      ''sticker'', ''decal'', ''film'', ''guard'', ''protector'', ''holder'', ''grip'',
      ''cleaning'', ''cloth'', ''kit'', ''tool'', ''repair'', ''replacement part'']"

definition is_accessory_or_irrelevant :: "string \<Rightarrow> string \<Rightarrow> bool" where
  "is_accessory_or_irrelevant title item =
     list_ex (\<lambda>keyword. contains title keyword \<and> \<not> contains (lower item) keyword)
       accessory_keywords"

definition used_keywords :: "string list" where
  "used_keywords =
     [''used'', ''refurbished'', ''renewed'', ''pre-owned'', ''open box'', ''grade b'',
      ''grade c'', ''scratched'']"

definition is_used_or_refurbished :: "offer \<Rightarrow> string \<Rightarrow> bool" where
  "is_used_or_refurbished product title =
     (if offer_second_hand_condition product \<noteq> None then True
      else list_ex (\<lambda>keyword. contains title keyword) used_keywords)"

definition is_from_correct_site :: "env \<Rightarrow> offer \<Rightarrow> string \<Rightarrow> bool" where
  "is_from_correct_site e product site_pref =
     (if lower site_pref = ''any'' then True
      else
        let site_pref_cleaned = remove_char (CHR '' '') (lower site_pref);
            source = remove_char (CHR '' '') (lower (get_str (offer_source product) []))
        in if contains source site_pref_cleaned then True
           else
             let link = get_str (offer_link product) []
             in if link \<noteq> [] then
                  (case netloc_of e link of
                     None \<Rightarrow> False
                   | Some netloc \<Rightarrow>
                       list_ex (\<lambda>target_domain. contains (lower netloc) target_domain)
                         (get_site_domains e site_pref))
                else False)"

definition stop_words :: "string set" where
  "stop_words =
     {''a'', ''an'', ''the'', ''and'', ''for'', ''with'', ''in'', ''on'', ''of'', ''to'', ''new''}"

definition is_semantically_relevant :: "string \<Rightarrow> string \<Rightarrow> bool" where
  "is_semantically_relevant title item =
     (let item_words = set (findall_words (lower item));
          title_words = set (findall_words (lower title));
          core_item_words = item_words - stop_words
      in if core_item_words = {} then True
         else core_item_words \<inter> title_words \<noteq> {})"

text \<open>
  \<^verbatim>\<open>float(price_str.replace("$", "").replace(",", ""))\<close> inside its \<^verbatim>\<open>try\<close>:
  \<open>None\<close> stands for both exceptions that are caught, \<^verbatim>\<open>AttributeError\<close> for a
  price that is not a string and \<^verbatim>\<open>ValueError\<close> for a string that is no number.
\<close>

definition parse_price :: "env \<Rightarrow> jval \<Rightarrow> pyfloat option" where
  "parse_price e price_str =
     (case price_str of
        JStr s \<Rightarrow> float_of e (remove_char (CHR '','') (remove_char (CHR ''$'') s))
      | _ \<Rightarrow> None)"

definition should_include_product :: "env \<Rightarrow> offer \<Rightarrow> string \<Rightarrow> string \<Rightarrow> bool" where
  "should_include_product e product item site_pref =
     (let title = lower (get_str (offer_title product) []);
          price_str = (case offer_price product of None \<Rightarrow> JStr [] | Some v \<Rightarrow> v)
      in if title = [] \<or> \<not> truthy price_str then False
         else
           (case parse_price e price_str of
              None \<Rightarrow> False
            | Some numeric_price \<Rightarrow>
                if numeric_price \<le> Fin 0 then False
                else if \<not> is_semantically_relevant title item then False
                else if is_accessory_or_irrelevant title item then False
                else if is_used_or_refurbished product title then False
                else if \<not> is_from_correct_site e product site_pref then False
                else if \<not> is_price_reasonable numeric_price item then False
                else True))"

definition apply_comprehensive_filters :: "env \<Rightarrow> offer list \<Rightarrow> string \<Rightarrow> string \<Rightarrow> offer list" where
  "apply_comprehensive_filters e results item site_pref =
     filter (\<lambda>p. should_include_product e p item site_pref) results"

section \<open>Sample environment\<close>

text \<open>
  An environment for the worked examples: plain unsigned decimal numerals for
  \<^verbatim>\<open>float\<close>, the text between the double slash and the next slash, question mark
  or hash for the host of a link, and one domain per retailer. The theorems below hold
  for every environment; only the examples use this one.
\<close>

fun nat_of_digits :: "nat \<Rightarrow> string \<Rightarrow> nat option" where
  "nat_of_digits acc [] = Some acc"
| "nat_of_digits acc (c # cs) =
     (if 48 \<le> (of_char c :: nat) \<and> (of_char c :: nat) \<le> 57
      then nat_of_digits (10 * acc + ((of_char c :: nat) - 48)) cs else None)"

definition sample_float_of :: "string \<Rightarrow> pyfloat option" where
  "sample_float_of s =
     (let whole = takeWhile (\<lambda>c. c \<noteq> CHR ''.'') s;
          frac = drop 1 (dropWhile (\<lambda>c. c \<noteq> CHR ''.'') s)
      in if whole = [] \<and> frac = [] then None
         else (case (nat_of_digits 0 whole, nat_of_digits 0 frac) of
                 (Some a, Some b) \<Rightarrow> Some (Fin (of_nat a + of_nat b / 10 ^ length frac))
               | _ \<Rightarrow> None))"

fun after_slashes :: "string \<Rightarrow> string" where
  "after_slashes (a # b # cs) =
     (if a = CHR ''/'' \<and> b = CHR ''/'' then cs else after_slashes (b # cs))"
| "after_slashes cs = []"

definition sample_netloc_of :: "string \<Rightarrow> string option" where
  "sample_netloc_of url =
     Some (takeWhile (\<lambda>c. c \<noteq> CHR ''/'' \<and> c \<noteq> CHR ''?'' \<and> c \<noteq> CHR ''#'') (after_slashes url))"

definition sample_env :: env where
  "sample_env = \<lparr>float_of = sample_float_of, netloc_of = sample_netloc_of,
     SITE_DOMAINS = map_of [(''walmart'', [''walmart.com'']), (''amazon'', [''amazon.com'']),
       (''target'', [''target.com'']), (''best buy'', [''bestbuy.com''])]\<rparr>"

section \<open>Properties\<close>

subsection \<open>Characters and strings\<close>

lemma lower_char_upper [simp]:
  "lower_char (CHR ''A'') = CHR ''a''" "lower_char (CHR ''B'') = CHR ''b''"
  "lower_char (CHR ''C'') = CHR ''c''" "lower_char (CHR ''D'') = CHR ''d''"
  "lower_char (CHR ''E'') = CHR ''e''" "lower_char (CHR ''F'') = CHR ''f''"
  "lower_char (CHR ''G'') = CHR ''g''" "lower_char (CHR ''H'') = CHR ''h''"
  "lower_char (CHR ''I'') = CHR ''i''" "lower_char (CHR ''J'') = CHR ''j''"
  "lower_char (CHR ''K'') = CHR ''k''" "lower_char (CHR ''L'') = CHR ''l''"
  "lower_char (CHR ''M'') = CHR ''m''" "lower_char (CHR ''N'') = CHR ''n''"
  "lower_char (CHR ''O'') = CHR ''o''" "lower_char (CHR ''P'') = CHR ''p''"
  "lower_char (CHR ''Q'') = CHR ''q''" "lower_char (CHR ''R'') = CHR ''r''"
  "lower_char (CHR ''S'') = CHR ''s''" "lower_char (CHR ''T'') = CHR ''t''"
  "lower_char (CHR ''U'') = CHR ''u''" "lower_char (CHR ''V'') = CHR ''v''"
  "lower_char (CHR ''W'') = CHR ''w''" "lower_char (CHR ''X'') = CHR ''x''"
  "lower_char (CHR ''Y'') = CHR ''y''" "lower_char (CHR ''Z'') = CHR ''z''"
  by code_simp+

lemma lower_char_other [simp]:
  "\<not> (65 \<le> (of_char c :: nat) \<and> (of_char c :: nat) \<le> 90) \<Longrightarrow> lower_char c = c"
  by (auto simp: lower_char_def)

subsection \<open>Price bands\<close>

lemma band_loop_first_match:
  assumes "i < length tbl"
    and "contains il (fst (tbl ! i))"
    and "\<forall>j<i. \<not> contains il (fst (tbl ! j))"
  shows "band_loop tbl price il =
           (Fin (fst (snd (tbl ! i))) \<le> price \<and> price \<le> Fin (snd (snd (tbl ! i))))"
  using assms
proof (induction tbl arbitrary: i)
  case Nil
  then show ?case by simp
next
  case (Cons row rest)
  obtain c lo hi where row: "row = (c, lo, hi)" by (cases row) auto
  show ?case
  proof (cases i)
    case 0
    with Cons.prems row show ?thesis by simp
  next
    case (Suc k)
    with Cons.prems have nc: "\<not> contains il c"
      using row by (metis fst_conv nth_Cons_0 zero_less_Suc)
    from Cons.prems Suc have "k < length rest" "contains il (fst (rest ! k))"
      "\<forall>j<k. \<not> contains il (fst (rest ! j))" by auto
    from Cons.IH [OF this] show ?thesis using nc row Suc by simp
  qed
qed

lemma band_loop_no_match:
  "\<forall>r\<in>set tbl. \<not> contains il (fst r) \<Longrightarrow>
     band_loop tbl price il = (Fin 1 \<le> price \<and> price \<le> Fin 10000)"
  by (induction tbl) auto

text \<open>
  C10. The price-band filter applies the band of the first category, in the order
  macbook, iphone, ipad, laptop, tv, tablet, that occurs in the lowercased item name;
  the default band from 1 to 10000 is used only when none occurs. Both ends of every
  band are inclusive.
\<close>

theorem is_price_reasonable_first_category:
  "is_price_reasonable price item =
     (if contains (lower item) ''macbook'' then Fin 500 \<le> price \<and> price \<le> Fin 5000
      else if contains (lower item) ''iphone'' then Fin 200 \<le> price \<and> price \<le> Fin 2000
      else if contains (lower item) ''ipad'' then Fin 200 \<le> price \<and> price \<le> Fin 2000
      else if contains (lower item) ''laptop'' then Fin 300 \<le> price \<and> price \<le> Fin 5000
      else if contains (lower item) ''tv'' then Fin 150 \<le> price \<and> price \<le> Fin 5000
      else if contains (lower item) ''tablet'' then Fin 100 \<le> price \<and> price \<le> Fin 2000
      else Fin 1 \<le> price \<and> price \<le> Fin 10000)"
  by (simp add: is_price_reasonable_def price_ranges_def)

text \<open>
  An item naming both a macbook and a tablet is checked against 500 to 5000: a price
  of 300 is refused, although the tablet band would accept it, and both ends of the
  band are accepted.
\<close>

theorem is_price_reasonable_first_category_witness:
  "\<not> is_price_reasonable (Fin 300) ''MacBook tablet''
   \<and> is_price_reasonable (Fin 300) ''tablet''
   \<and> is_price_reasonable (Fin 500) ''MacBook tablet''
   \<and> is_price_reasonable (Fin 5000) ''MacBook tablet''
   \<and> is_price_reasonable (Fin 1) ''desk''
   \<and> is_price_reasonable (Fin 10000) ''desk''"
  unfolding is_price_reasonable_first_category
  by (simp add: lower_def)

subsection \<open>Deduplicator\<close>

lemma dedup_loop_append:
  "dedup_loop si st u xs = u @ dedup_loop si st [] xs"
proof (induction xs arbitrary: si st u)
  case Nil
  then show ?case by simp
next
  case (Cons x xs)
  show ?case
    using Cons.IH [of _ _ "u @ [x]"] Cons.IH [of _ _ "[x]"] Cons.IH [of si st u]
    by simp
qed

lemma dedup_loop_Cons:
  "dedup_loop si st [] (x # xs) =
     (if ident x \<notin> si \<and> normalized_title x \<notin> st
      then x # dedup_loop (insert (ident x) si) (insert (normalized_title x) st) [] xs
      else dedup_loop si st [] xs)"
  using dedup_loop_append [of _ _ "[x]" xs] by simp

lemma dedup_loop_snoc:
  "dedup_loop si st [] (xs @ [r]) =
     (let out = dedup_loop si st [] xs
      in if ident r \<notin> si \<union> ident ` set out
            \<and> normalized_title r \<notin> st \<union> normalized_title ` set out
         then out @ [r] else out)"
proof (induction xs arbitrary: si st)
  case Nil
  then show ?case by simp
next
  case (Cons x xs)
  show ?case
    unfolding append_Cons dedup_loop_Cons [of si st x] Cons.IH
    by (simp add: Let_def)
qed

lemma dedup_loop_fresh:
  "ident ` set (dedup_loop si st [] xs) \<inter> si = {}
   \<and> normalized_title ` set (dedup_loop si st [] xs) \<inter> st = {}"
proof (induction xs arbitrary: si st)
  case Nil
  then show ?case by simp
next
  case (Cons x xs)
  show ?case
    unfolding dedup_loop_Cons [of si st x]
    using Cons.IH [of "insert (ident x) si" "insert (normalized_title x) st"] Cons.IH [of si st]
    by auto
qed

lemma dedup_loop_distinct:
  "distinct (map ident (dedup_loop si st [] xs))
   \<and> distinct (map normalized_title (dedup_loop si st [] xs))"
proof (induction xs arbitrary: si st)
  case Nil
  then show ?case by simp
next
  case (Cons x xs)
  show ?case
    unfolding dedup_loop_Cons [of si st x]
    using Cons.IH dedup_loop_fresh [of "insert (ident x) si" "insert (normalized_title x) st" xs]
    by auto
qed

lemma dedup_loop_subseq: "subseq (dedup_loop si st [] xs) xs"
proof (induction xs arbitrary: si st)
  case Nil
  then show ?case by simp
next
  case (Cons x xs)
  show ?case
    unfolding dedup_loop_Cons [of si st x]
    using Cons.IH by (auto intro: list_emb_Cons)
qed

lemma distinct_map_filter_le1:
  "distinct (map f xs) \<Longrightarrow> length (filter (\<lambda>x. f x = k) xs) \<le> 1"
  by (induction xs) (auto simp: filter_empty_conv image_iff)

text \<open>
  C2, as the code has it. The output has no two offers with the same identifier
  (product_id, else id, else link, else the empty string) and no two with the same
  normalized title, and it is a subsequence of the input. An offer is kept exactly
  when neither its identifier nor its normalized title is that of an offer kept
  before it: the two sets only record the keys of kept offers.
\<close>

theorem remove_duplicates_greedy:
  "remove_duplicates [] = []
   \<and> remove_duplicates (xs @ [r]) =
       (if ident r \<in> ident ` set (remove_duplicates xs)
           \<or> normalized_title r \<in> normalized_title ` set (remove_duplicates xs)
        then remove_duplicates xs else remove_duplicates xs @ [r])
   \<and> distinct (map ident (remove_duplicates xs))
   \<and> distinct (map normalized_title (remove_duplicates xs))
   \<and> subseq (remove_duplicates xs) xs"
  unfolding remove_duplicates_def
  using dedup_loop_snoc [of "{}" "{}" xs r] dedup_loop_distinct [of "{}" "{}" xs]
    dedup_loop_subseq [of "{}" "{}" xs]
  by (simp add: Let_def)

theorem remove_duplicates_greedy_witness:
  "remove_duplicates
     [blank_offer\<lparr>offer_title := Some ''Red  Mug'', offer_product_id := Some ''p1''\<rparr>,
      blank_offer\<lparr>offer_title := Some '' red mug '', offer_product_id := Some ''p2''\<rparr>,
      blank_offer\<lparr>offer_title := Some ''Blue Mug'', offer_product_id := Some ''p1''\<rparr>,
      blank_offer\<lparr>offer_title := Some ''Green Mug'', offer_id := Some ''p3''\<rparr>]
   = [blank_offer\<lparr>offer_title := Some ''Red  Mug'', offer_product_id := Some ''p1''\<rparr>,
      blank_offer\<lparr>offer_title := Some ''Green Mug'', offer_id := Some ''p3''\<rparr>]"
  using remove_duplicates_greedy
    [of "[blank_offer\<lparr>offer_title := Some ''Red  Mug'', offer_product_id := Some ''p1''\<rparr>,
      blank_offer\<lparr>offer_title := Some '' red mug '', offer_product_id := Some ''p2''\<rparr>,
      blank_offer\<lparr>offer_title := Some ''Blue Mug'', offer_product_id := Some ''p1''\<rparr>]"
      "blank_offer\<lparr>offer_title := Some ''Green Mug'', offer_id := Some ''p3''\<rparr>"]
  by (simp add: remove_duplicates_def blank_offer_def ident_def normalized_title_def or_else_def
      get_str_def strip_def sub_spaces_def lower_def is_space_def)

text \<open>
  The first occurrence of a key is not always the one kept. Below, the second offer is
  the first with identifier \<open>p2\<close>; it is dropped for its title, and the third
  offer, a later occurrence of \<open>p2\<close>, is kept.
\<close>

theorem remove_duplicates_first_occurrence_counterexample:
  "remove_duplicates
     [blank_offer\<lparr>offer_title := Some ''red mug'', offer_product_id := Some ''p1''\<rparr>,
      blank_offer\<lparr>offer_title := Some ''red mug'', offer_product_id := Some ''p2''\<rparr>,
      blank_offer\<lparr>offer_title := Some ''blue mug'', offer_product_id := Some ''p2''\<rparr>]
   = [blank_offer\<lparr>offer_title := Some ''red mug'', offer_product_id := Some ''p1''\<rparr>,
      blank_offer\<lparr>offer_title := Some ''blue mug'', offer_product_id := Some ''p2''\<rparr>]
   \<and> ident (blank_offer\<lparr>offer_title := Some ''red mug'', offer_product_id := Some ''p1''\<rparr>) = ''p1''
   \<and> ident (blank_offer\<lparr>offer_title := Some ''red mug'', offer_product_id := Some ''p2''\<rparr>) = ''p2''
   \<and> ident (blank_offer\<lparr>offer_title := Some ''blue mug'', offer_product_id := Some ''p2''\<rparr>) = ''p2''"
  by (simp add: remove_duplicates_def blank_offer_def ident_def normalized_title_def or_else_def
      get_str_def strip_def sub_spaces_def lower_def is_space_def)

text \<open>
  C9. An offer with none of product_id, id and link has the empty identifier; at most
  one offer with the empty identifier survives, and once one is kept every later offer
  with the empty identifier is dropped, whatever its title.
\<close>

theorem remove_duplicates_one_without_ident:
  "(offer_product_id r = None \<and> offer_id r = None \<and> offer_link r = None \<longrightarrow> ident r = [])
   \<and> length (filter (\<lambda>k. ident k = []) (remove_duplicates xs)) \<le> 1
   \<and> ((\<exists>k\<in>set (remove_duplicates xs). ident k = []) \<and> ident r = []
        \<longrightarrow> remove_duplicates (xs @ [r]) = remove_duplicates xs)"
proof -
  have a: "distinct (map ident (remove_duplicates xs))"
    unfolding remove_duplicates_def using dedup_loop_distinct [of "{}" "{}" xs] by simp
  have b: "remove_duplicates (xs @ [r]) =
       (if ident r \<in> ident ` set (remove_duplicates xs)
           \<or> normalized_title r \<in> normalized_title ` set (remove_duplicates xs)
        then remove_duplicates xs else remove_duplicates xs @ [r])"
    unfolding remove_duplicates_def using dedup_loop_snoc [of "{}" "{}" xs r]
    by (simp add: Let_def)
  have c: "(\<exists>k\<in>set (remove_duplicates xs). ident k = []) \<and> ident r = []
        \<longrightarrow> remove_duplicates (xs @ [r]) = remove_duplicates xs"
    unfolding b by (auto simp: image_iff)
  show ?thesis
    using distinct_map_filter_le1 [OF a, of "[]"] c
    by (simp add: ident_def or_else_def get_str_def)
qed

theorem remove_duplicates_one_without_ident_witness:
  "remove_duplicates
     [blank_offer\<lparr>offer_title := Some ''red mug''\<rparr>,
      blank_offer\<lparr>offer_title := Some ''blue mug''\<rparr>]
   = [blank_offer\<lparr>offer_title := Some ''red mug''\<rparr>]"
  using remove_duplicates_one_without_ident
    [of "blank_offer\<lparr>offer_title := Some ''blue mug''\<rparr>"
        "[blank_offer\<lparr>offer_title := Some ''red mug''\<rparr>]"]
  by (simp add: remove_duplicates_def blank_offer_def ident_def normalized_title_def or_else_def
      get_str_def strip_def sub_spaces_def lower_def is_space_def)

subsection \<open>Filter chain\<close>

lemma starts_with_lower: "starts_with s p \<Longrightarrow> starts_with (lower s) (lower p)"
  by (induction s p rule: starts_with.induct) (auto simp: lower_def)

lemma contains_lower: "contains s p \<Longrightarrow> contains (lower s) (lower p)"
proof (induction s)
  case Nil
  then show ?case by (simp add: lower_def)
next
  case (Cons c cs)
  then show ?case
    using starts_with_lower [of "c # cs" p] by (auto simp: lower_def)
qed

lemma accessory_keywords_lower: "\<forall>keyword\<in>set accessory_keywords. lower keyword = keyword"
  by (simp add: accessory_keywords_def lower_def)

text \<open>
  C3. An offer that passes the filter chain has a price string that, without dollar
  signs and commas, parses to a number strictly greater than 0; its title is not
  empty; and every accessory keyword that occurs in its title, lowercased or as
  written, also occurs in the lowercased item name.
\<close>

theorem should_include_product_sound:
  assumes "should_include_product e product item site_pref"
  shows "\<exists>s numeric_price.
           offer_price product = Some (JStr s)
           \<and> float_of e (remove_char (CHR '','') (remove_char (CHR ''$'') s)) = Some numeric_price
           \<and> Fin 0 < numeric_price
           \<and> get_str (offer_title product) [] \<noteq> []
           \<and> (\<forall>keyword\<in>set accessory_keywords.
                 contains (lower (get_str (offer_title product) [])) keyword
                 \<or> contains (get_str (offer_title product) []) keyword
                 \<longrightarrow> contains (lower item) keyword)"
proof -
  let ?title = "lower (get_str (offer_title product) [])"
  let ?price_str = "case offer_price product of None \<Rightarrow> JStr [] | Some v \<Rightarrow> v"
  from assms have t: "?title \<noteq> []" and tr: "truthy ?price_str"
    by (auto simp: should_include_product_def Let_def split: if_splits)
  from assms t tr obtain np where np: "parse_price e ?price_str = Some np"
    and pos: "\<not> np \<le> Fin 0" and acc: "\<not> is_accessory_or_irrelevant ?title item"
    by (auto simp: should_include_product_def Let_def split: if_splits option.splits)
  from np obtain s where s: "?price_str = JStr s"
    and f: "float_of e (remove_char (CHR '','') (remove_char (CHR ''$'') s)) = Some np"
    by (auto simp: parse_price_def split: jval.splits)
  from s tr have "offer_price product = Some (JStr s)"
    by (auto split: option.splits)
  moreover from t have "get_str (offer_title product) [] \<noteq> []"
    by (auto simp: lower_def)
  moreover have "\<forall>keyword\<in>set accessory_keywords.
                 contains ?title keyword \<or> contains (get_str (offer_title product) []) keyword
                 \<longrightarrow> contains (lower item) keyword"
  proof
    fix keyword assume k: "keyword \<in> set accessory_keywords"
    then have lk: "lower keyword = keyword" using accessory_keywords_lower by blast
    show "contains ?title keyword \<or> contains (get_str (offer_title product) []) keyword
                 \<longrightarrow> contains (lower item) keyword"
    proof
      assume "contains ?title keyword \<or> contains (get_str (offer_title product) []) keyword"
      then have "contains ?title keyword"
        using contains_lower [of "get_str (offer_title product) []" keyword] lk by auto
      with acc k show "contains (lower item) keyword"
        by (auto simp: is_accessory_or_irrelevant_def list_ex_iff)
    qed
  qed
  ultimately show ?thesis using f pos by auto
qed

theorem should_include_product_sound_witness:
  "should_include_product sample_env
       (blank_offer\<lparr>offer_title := Some ''Apple iPhone 15'', offer_price := Some (JStr ''$1,299.00'')\<rparr>)
       ''iphone'' ''Any''
   \<and> float_of sample_env ''1299.00'' = Some (Fin 1299)
   \<and> \<not> contains ''apple iphone 15'' ''case''"
proof -
  have h: "should_include_product sample_env
       (blank_offer\<lparr>offer_title := Some ''Apple iPhone 15'', offer_price := Some (JStr ''$1,299.00'')\<rparr>)
       ''iphone'' ''Any''"
    by (simp add: should_include_product_def blank_offer_def get_str_def lower_def parse_price_def
        sample_env_def sample_float_of_def remove_char_def is_semantically_relevant_def
        findall_words_def is_word_def stop_words_def is_accessory_or_irrelevant_def
        accessory_keywords_def is_used_or_refurbished_def used_keywords_def
        is_from_correct_site_def is_price_reasonable_def price_ranges_def)
  have f: "float_of sample_env ''1299.00'' = Some (Fin 1299)"
    by (simp add: sample_env_def sample_float_of_def)
  have c: "\<not> contains ''apple iphone 15'' ''case''" by simp
  from should_include_product_sound [OF h] h f c show ?thesis by blast
qed

end
